theory Spec2Isabelle
  imports Main
begin

section \<open>JavaScript values, errors and promises\<close>

text \<open>
  The flag held by the provider is declared \<open>boolean\<close>, but \<open>JSON.parse\<close> returns
  \<open>any\<close>, so at run time the state cell can hold whatever the stored text parses to.
  The provider only negates the flag (\<open>!isDarkMode\<close>), branches on it
  (\<open>isDarkMode ? \<dots> : \<dots>\<close>) and passes it on, so a value that is not a boolean is
  represented by its truthiness alone.
\<close>

datatype js_value = JBool bool | JOther bool

fun truthy :: "js_value \<Rightarrow> bool" where
  "truthy (JBool b) = b"
| "truthy (JOther t) = t"

datatype js_error = Error string | SyntaxError | StorageError string

datatype 'a promise = Fulfilled 'a | Rejected js_error

text \<open>
  \<open>JSON.stringify\<close> is only ever applied to \<open>newMode = !isDarkMode\<close>, which is a
  JavaScript boolean whatever \<open>isDarkMode\<close> holds.
\<close>

definition JSON_stringify :: "bool \<Rightarrow> string" where
  "JSON_stringify b = (if b then ''true'' else ''false'')"

text \<open>
  \<open>JSON.parse\<close> belongs to the platform. The provider takes it as a parameter
  \<open>JSON_parse :: string \<Rightarrow> js_error + js_value\<close> (\<open>Inl\<close> when it throws); theorems
  state what they assume of it. \<open>JSON_parse_literals\<close> is \<open>JSON.parse\<close> on the two
  texts the provider itself writes; it instantiates those theorems and is exact at
  \<open>''true''\<close> and \<open>''false''\<close> only.
\<close>

definition JSON_parse_literals :: "string \<Rightarrow> js_error + js_value" where
  "JSON_parse_literals s =
     (if s = ''true'' then Inr (JBool True)
      else if s = ''false'' then Inr (JBool False)
      else Inl SyntaxError)"

section \<open>Color schemes\<close>

text \<open>
  A scheme is a JavaScript object: a list of keys with their values. A value is a
  string, a pair of gradient stops \<open>[string, string]\<close>, or a nested object.
\<close>

datatype scheme_value =
    Str string
  | Stops string string
  | Group "(string \<times> scheme_value) list"

type_synonym ColorScheme = "(string \<times> scheme_value) list"

definition lightColors :: ColorScheme where
  "lightColors =
    [(''bg'', Str ''#f8fafc''),
     (''surface'', Str ''#ffffff''),
     (''text'', Str ''#1e293b''),
     (''textMuted'', Str ''#64748b''),
     (''border'', Str ''#e2e8f0''),
     (''primary'', Str ''#3b82f6''),
     (''success'', Str ''#10b981''),
     (''warning'', Str ''#f59e0b''),
     (''danger'', Str ''#ef4444''),
     (''shadow'', Str ''#000000''),
     (''gradients'', Group
       [(''background'', Stops ''#f8fafc'' ''#e2e8f0''),
        (''surface'', Stops ''#ffffff'' ''#f8fafc''),
        (''primary'', Stops ''#3b82f6'' ''#1d4ed8''),
        (''success'', Stops ''#10b981'' ''#059669''),
        (''warning'', Stops ''#f59e0b'' ''#d97706''),
        (''danger'', Stops ''#ef4444'' ''#dc2626''),
        (''muted'', Stops ''#9ca3af'' ''#6b7280''),
        (''empty'', Stops ''#f3f4f6'' ''#e5e7eb'')]),
     (''backgrounds'', Group
       [(''input'', Str ''#ffffff''),
        (''editInput'', Str ''#ffffff'')]),
     (''statusBarStyle'', Str ''dark-content'')]"

definition darkColors :: ColorScheme where
  "darkColors =
    [(''bg'', Str ''#0f172a''),
     (''surface'', Str ''#1e293b''),
     (''text'', Str ''#f1f5f9''),
     (''textMuted'', Str ''#94a3b8''),
     (''border'', Str ''#334155''),
     (''primary'', Str ''#60a5fa''),
     (''success'', Str ''#34d399''),
     (''warning'', Str ''#fbbf24''),
     (''danger'', Str ''#f87171''),
     (''shadow'', Str ''#000000''),
     (''gradients'', Group
       [(''background'', Stops ''#0f172a'' ''#1e293b''),
        (''surface'', Stops ''#1e293b'' ''#334155''),
        (''primary'', Stops ''#3b82f6'' ''#1d4ed8''),
        (''success'', Stops ''#10b981'' ''#059669''),
        (''warning'', Stops ''#f59e0b'' ''#d97706''),
        (''danger'', Stops ''#ef4444'' ''#dc2626''),
        (''muted'', Stops ''#374151'' ''#4b5563''),
        (''empty'', Stops ''#374151'' ''#4b5563'')]),
     (''backgrounds'', Group
       [(''input'', Str ''#1e293b''),
        (''editInput'', Str ''#0f172a'')]),
     (''statusBarStyle'', Str ''light-content'')]"

text \<open>
  The \<open>ColorScheme\<close> interface, as the list of its fields with their declared types.
\<close>

datatype field_type =
    TString
  | TStops
  | TStatusBarStyle
  | TGroup "(string \<times> field_type) list"

definition ColorScheme_interface :: "(string \<times> field_type) list" where
  "ColorScheme_interface =
    [(''bg'', TString),
     (''surface'', TString),
     (''text'', TString),
     (''textMuted'', TString),
     (''border'', TString),
     (''primary'', TString),
     (''success'', TString),
     (''warning'', TString),
     (''danger'', TString),
     (''shadow'', TString),
     (''gradients'', TGroup
       [(''background'', TStops),
        (''surface'', TStops),
        (''primary'', TStops),
        (''success'', TStops),
        (''warning'', TStops),
        (''danger'', TStops),
        (''muted'', TStops),
        (''empty'', TStops)]),
     (''backgrounds'', TGroup
       [(''input'', TString),
        (''editInput'', TString)]),
     (''statusBarStyle'', TStatusBarStyle)]"

text \<open>
  The keys of an object, nested ones as paths: \<open>gradients.primary\<close> is
  \<open>[''gradients'', ''primary'']\<close>, and \<open>gradients\<close> itself is \<open>[''gradients'']\<close>.
\<close>

fun value_keys :: "scheme_value \<Rightarrow> string list list"
  and object_keys :: "(string \<times> scheme_value) list \<Rightarrow> string list list" where
  "value_keys (Str s) = []"
| "value_keys (Stops a b) = []"
| "value_keys (Group fs) = object_keys fs"
| "object_keys [] = []"
| "object_keys ((k, v) # fs) = [k] # map ((#) k) (value_keys v) @ object_keys fs"

fun type_keys :: "field_type \<Rightarrow> string list list"
  and interface_keys :: "(string \<times> field_type) list \<Rightarrow> string list list" where
  "type_keys TString = []"
| "type_keys TStops = []"
| "type_keys TStatusBarStyle = []"
| "type_keys (TGroup fs) = interface_keys fs"
| "interface_keys [] = []"
| "interface_keys ((k, t) # fs) = [k] # map ((#) k) (type_keys t) @ interface_keys fs"

text \<open>A value is populated when it is there and has the shape its field declares.\<close>

fun has_type :: "field_type \<Rightarrow> scheme_value \<Rightarrow> bool"
  and has_fields :: "(string \<times> field_type) list \<Rightarrow> (string \<times> scheme_value) list \<Rightarrow> bool" where
  "has_type TString (Str s) = (0 < length s)"
| "has_type TStops (Stops a b) = (0 < length a \<and> 0 < length b)"
| "has_type TStatusBarStyle (Str s) = (s = ''light-content'' \<or> s = ''dark-content'')"
| "has_type (TGroup ts) (Group fs) = has_fields ts fs"
| "has_type t v = False"
| "has_fields [] [] = True"
| "has_fields ((k, t) # ts) ((k', v) # fs) = (k = k' \<and> has_type t v \<and> has_fields ts fs)"
| "has_fields ts fs = False"

section \<open>Device storage and the provider\<close>

text \<open>
  The world of one mounted provider: the cell of \<open>useState\<close> (the value the next render
  reads), the contents of AsyncStorage, and the storage calls the provider has issued,
  oldest first.
\<close>

record world =
  isDarkMode_state :: js_value
  storage :: "string \<rightharpoonup> string"
  getItem_calls :: "string list"
  setItem_calls :: "(string \<times> string) list"


text \<open>
  A storage call is issued when the provider makes it and settles later: with
  \<open>failure = None\<close> when the platform carries it out, with \<open>Some e\<close> when it rejects
  with \<open>e\<close>. \<open>AsyncStorage_getItem\<close> issues a read and \<open>getItem_settled\<close> is the promise
  it settles to: a read returns the text stored at the moment it settles. A write is
  issued and settled in one step, so writes settle in the order they were issued; a
  rejected write leaves the stored text as it was. How the platform orders calls that
  are in flight together is not modelled.
\<close>

definition AsyncStorage_getItem :: "string \<Rightarrow> world \<Rightarrow> world" where
  "AsyncStorage_getItem key w = w\<lparr>getItem_calls := getItem_calls w @ [key]\<rparr>"

definition getItem_settled :: "string \<Rightarrow> js_error option \<Rightarrow> world \<Rightarrow> string option promise" where
  "getItem_settled key failure w =
     (case failure of None \<Rightarrow> Fulfilled (storage w key) | Some e \<Rightarrow> Rejected e)"

definition AsyncStorage_setItem ::
  "string \<Rightarrow> string \<Rightarrow> js_error option \<Rightarrow> world \<Rightarrow> world \<times> unit promise" where
  "AsyncStorage_setItem key v failure w =
     (case failure of
        None \<Rightarrow>
          (w\<lparr>storage := (storage w)(key \<mapsto> v),
             setItem_calls := setItem_calls w @ [(key, v)]\<rparr>, Fulfilled ())
      | Some e \<Rightarrow>
          (w\<lparr>setItem_calls := setItem_calls w @ [(key, v)]\<rparr>, Rejected e))"

text \<open>
  What the provider publishes. \<open>toggleDarkMode\<close> is a closure: it takes the outcome of
  its write from the platform and the world it is called in, and returns the world it
  leaves with the promise of the \<open>async\<close> function.
\<close>

record ThemeContextType =
  isDarkMode :: js_value
  toggleDarkMode :: "js_error option \<Rightarrow> world \<Rightarrow> world \<times> unit promise"
  colors :: ColorScheme

text \<open>
  The body of \<open>toggleDarkMode\<close>. Its first argument is the \<open>isDarkMode\<close> of the render
  that created the closure.
\<close>

definition ThemeProvider_toggleDarkMode ::
  "js_value \<Rightarrow> js_error option \<Rightarrow> world \<Rightarrow> world \<times> unit promise" where
  "ThemeProvider_toggleDarkMode isDarkMode' failure w =
     (let newMode = \<not> truthy isDarkMode';
          w1 = w\<lparr>isDarkMode_state := JBool newMode\<rparr>
      in AsyncStorage_setItem ''darkMode'' (JSON_stringify newMode) failure w1)"

text \<open>One render of the provider: the value handed to \<open>ThemeContext.Provider\<close>.\<close>

definition ThemeProvider :: "world \<Rightarrow> ThemeContextType" where
  "ThemeProvider w =
     (let isDarkMode' = isDarkMode_state w;
          colors' = (if truthy isDarkMode' then darkColors else lightColors)
      in \<lparr>isDarkMode = isDarkMode',
          toggleDarkMode = ThemeProvider_toggleDarkMode isDarkMode',
          colors = colors'\<rparr>)"

text \<open>A provider newly constructed over the stored texts \<open>st\<close>: \<open>useState(false)\<close>.\<close>

definition ThemeProvider_initial :: "(string \<rightharpoonup> string) \<Rightarrow> world" where
  "ThemeProvider_initial st =
     \<lparr>isDarkMode_state = JBool False, storage = st, getItem_calls = [], setItem_calls = []\<rparr>"

text \<open>
  The mount effect. Its body runs once, after the first render, and issues the read:
  \<open>ThemeProvider_mounted\<close> is the provider from then on. When the read settles, the
  chain \<open>AsyncStorage.getItem("darkMode").then(\<dots>)\<close> goes on: \<open>getItem_then\<close> is the
  callback given to \<open>.then\<close>, and \<open>ThemeProvider_getItem_chain\<close> is the world the chain
  leaves with the promise it settles to.
\<close>

definition ThemeProvider_useEffect :: "world \<Rightarrow> world" where
  "ThemeProvider_useEffect w = AsyncStorage_getItem ''darkMode'' w"

definition ThemeProvider_mounted :: "(string \<rightharpoonup> string) \<Rightarrow> world" where
  "ThemeProvider_mounted st = ThemeProvider_useEffect (ThemeProvider_initial st)"

definition getItem_then ::
  "(string \<Rightarrow> js_error + js_value) \<Rightarrow> string option \<Rightarrow> world \<Rightarrow> world \<times> unit promise" where
  "getItem_then JSON_parse v w =
     (case v of
        None \<Rightarrow> (w, Fulfilled ())
      | Some s \<Rightarrow>
          if s = [] then (w, Fulfilled ())
          else (case JSON_parse s of
                  Inl e \<Rightarrow> (w, Rejected e)
                | Inr x \<Rightarrow> (w\<lparr>isDarkMode_state := x\<rparr>, Fulfilled ())))"

definition ThemeProvider_getItem_chain ::
  "(string \<Rightarrow> js_error + js_value) \<Rightarrow> js_error option \<Rightarrow> world \<Rightarrow> world \<times> unit promise" where
  "ThemeProvider_getItem_chain JSON_parse failure w =
     (case getItem_settled ''darkMode'' failure w of
        Rejected e \<Rightarrow> (w, Rejected e)
      | Fulfilled v \<Rightarrow> getItem_then JSON_parse v w)"

text \<open>
  The effect keeps no reference to the chain and gives it no rejection handler (there is
  no \<open>.catch\<close>), so a chain that rejects is an unhandled rejection, which the runtime
  receives. \<open>ThemeProvider_read_settled\<close> is the world the settled read leaves, with that
  rejection if there is one.
\<close>

definition unhandled_rejection :: "'a promise \<Rightarrow> js_error option" where
  "unhandled_rejection p = (case p of Fulfilled x \<Rightarrow> None | Rejected e \<Rightarrow> Some e)"

definition ThemeProvider_read_settled ::
  "(string \<Rightarrow> js_error + js_value) \<Rightarrow> js_error option \<Rightarrow> world \<Rightarrow> world \<times> js_error option" where
  "ThemeProvider_read_settled JSON_parse failure w =
     (case ThemeProvider_getItem_chain JSON_parse failure w of
        (w', p) \<Rightarrow> (w', unhandled_rejection p))"

text \<open>
  \<open>useContext(ThemeContext)\<close> is \<open>undefined\<close> (\<open>None\<close>) outside a provider and the value
  of the nearest provider's last render inside one.
\<close>

definition useContext :: "world option \<Rightarrow> ThemeContextType option" where
  "useContext provider = map_option ThemeProvider provider"

definition useTheme :: "world option \<Rightarrow> js_error + ThemeContextType" where
  "useTheme provider =
     (case useContext provider of
        None \<Rightarrow> Inl (Error ''useTheme must be used within a ThemeProvider'')
      | Some context \<Rightarrow> Inr context)"

section \<open>Runs of the provider\<close>

text \<open>
  A provider constructed anew over the texts an earlier one left in storage (the app
  restarted), with its read carried out.
\<close>

definition ThemeProvider_restarted ::
  "(string \<Rightarrow> js_error + js_value) \<Rightarrow> world \<Rightarrow> world" where
  "ThemeProvider_restarted JSON_parse w =
     fst (ThemeProvider_read_settled JSON_parse None (ThemeProvider_mounted (storage w)))"

text \<open>
  \<open>n\<close> calls of \<open>toggleDarkMode\<close>, each made through the render that follows the call
  before it, each write carried out.
\<close>

fun completed_toggles :: "nat \<Rightarrow> world \<Rightarrow> world" where
  "completed_toggles 0 w = w"
| "completed_toggles (Suc n) w =
     completed_toggles n (fst (toggleDarkMode (ThemeProvider w) None w))"

text \<open>
  Calls in succession with no render assumed between them: each call is given by the
  flag its closure captured and by the outcome of its write.
\<close>

fun toggle_calls :: "(js_value \<times> js_error option) list \<Rightarrow> world \<Rightarrow> world" where
  "toggle_calls [] w = w"
| "toggle_calls ((c, f) # cs) w = toggle_calls cs (fst (ThemeProvider_toggleDarkMode c f w))"

text \<open>
  Whatever can happen to a mounted provider: a call of a \<open>toggleDarkMode\<close> closure of
  some render, or the read of the mount effect settling.
\<close>

datatype event = Toggle js_value "js_error option" | ReadSettles "js_error option"

fun step :: "(string \<Rightarrow> js_error + js_value) \<Rightarrow> event \<Rightarrow> world \<Rightarrow> world" where
  "step JSON_parse (Toggle c f) w = fst (ThemeProvider_toggleDarkMode c f w)"
| "step JSON_parse (ReadSettles f) w = fst (ThemeProvider_read_settled JSON_parse f w)"

fun run :: "(string \<Rightarrow> js_error + js_value) \<Rightarrow> event list \<Rightarrow> world \<Rightarrow> world" where
  "run JSON_parse [] w = w"
| "run JSON_parse (ev # evs) w = run JSON_parse evs (step JSON_parse ev w)"

section \<open>What one call and one effect do to the world\<close>

lemma context_toggleDarkMode:
  "toggleDarkMode (ThemeProvider w) = ThemeProvider_toggleDarkMode (isDarkMode_state w)"
  by (simp add: ThemeProvider_def Let_def)

lemma toggle_state:
  "isDarkMode_state (fst (ThemeProvider_toggleDarkMode c f w)) = JBool (\<not> truthy c)"
  by (simp add: ThemeProvider_toggleDarkMode_def AsyncStorage_setItem_def Let_def
      split: option.splits)

lemma toggle_storage_written:
  "storage (fst (ThemeProvider_toggleDarkMode c None w)) =
     (storage w)(''darkMode'' \<mapsto> JSON_stringify (\<not> truthy c))"
  by (simp add: ThemeProvider_toggleDarkMode_def AsyncStorage_setItem_def Let_def)

lemma toggle_storage_failed:
  "storage (fst (ThemeProvider_toggleDarkMode c (Some e) w)) = storage w"
  by (simp add: ThemeProvider_toggleDarkMode_def AsyncStorage_setItem_def Let_def)

lemma toggle_setItem_calls:
  "setItem_calls (fst (ThemeProvider_toggleDarkMode c f w)) =
     setItem_calls w @ [(''darkMode'', JSON_stringify (\<not> truthy c))]"
  by (simp add: ThemeProvider_toggleDarkMode_def AsyncStorage_setItem_def Let_def
      split: option.splits)

lemma toggle_getItem_calls:
  "getItem_calls (fst (ThemeProvider_toggleDarkMode c f w)) = getItem_calls w"
  by (simp add: ThemeProvider_toggleDarkMode_def AsyncStorage_setItem_def Let_def
      split: option.splits)

lemma toggle_promise:
  "snd (ThemeProvider_toggleDarkMode c f w) =
     (case f of None \<Rightarrow> Fulfilled () | Some e \<Rightarrow> Rejected e)"
  by (simp add: ThemeProvider_toggleDarkMode_def AsyncStorage_setItem_def Let_def
      split: option.splits)

lemma mounted_state: "isDarkMode_state (ThemeProvider_mounted st) = JBool False"
  by (simp add: ThemeProvider_mounted_def ThemeProvider_useEffect_def AsyncStorage_getItem_def
      ThemeProvider_initial_def)

lemma mounted_storage: "storage (ThemeProvider_mounted st) = st"
  by (simp add: ThemeProvider_mounted_def ThemeProvider_useEffect_def AsyncStorage_getItem_def
      ThemeProvider_initial_def)

lemma mounted_getItem_calls: "getItem_calls (ThemeProvider_mounted st) = [''darkMode'']"
  by (simp add: ThemeProvider_mounted_def ThemeProvider_useEffect_def AsyncStorage_getItem_def
      ThemeProvider_initial_def)

lemma mounted_setItem_calls: "setItem_calls (ThemeProvider_mounted st) = []"
  by (simp add: ThemeProvider_mounted_def ThemeProvider_useEffect_def AsyncStorage_getItem_def
      ThemeProvider_initial_def)

lemma read_settled_world:
  "fst (ThemeProvider_read_settled JSON_parse f w) =
     (case f of
        Some e \<Rightarrow> w
      | None \<Rightarrow>
          (case storage w ''darkMode'' of
             None \<Rightarrow> w
           | Some s \<Rightarrow>
               if s = [] then w
               else (case JSON_parse s of
                       Inl e \<Rightarrow> w
                     | Inr x \<Rightarrow> w\<lparr>isDarkMode_state := x\<rparr>)))"
  by (simp add: ThemeProvider_read_settled_def ThemeProvider_getItem_chain_def
      getItem_settled_def getItem_then_def split: option.splits sum.splits)

lemma read_settled_unhandled:
  "snd (ThemeProvider_read_settled JSON_parse f w) =
     (case f of
        Some e \<Rightarrow> Some e
      | None \<Rightarrow>
          (case storage w ''darkMode'' of
             None \<Rightarrow> None
           | Some s \<Rightarrow>
               if s = [] then None
               else (case JSON_parse s of Inl e \<Rightarrow> Some e | Inr x \<Rightarrow> None)))"
  by (simp add: ThemeProvider_read_settled_def ThemeProvider_getItem_chain_def
      getItem_settled_def getItem_then_def unhandled_rejection_def
      split: option.splits sum.splits)

lemma read_settled_state:
  "isDarkMode_state (fst (ThemeProvider_read_settled JSON_parse f w)) =
     (case f of
        Some e \<Rightarrow> isDarkMode_state w
      | None \<Rightarrow>
          (case storage w ''darkMode'' of
             None \<Rightarrow> isDarkMode_state w
           | Some s \<Rightarrow>
               if s = [] then isDarkMode_state w
               else (case JSON_parse s of Inl e \<Rightarrow> isDarkMode_state w | Inr x \<Rightarrow> x)))"
  by (simp add: read_settled_world split: option.splits sum.splits)

lemma read_settled_storage:
  "storage (fst (ThemeProvider_read_settled JSON_parse f w)) = storage w"
  by (simp add: read_settled_world split: option.splits sum.splits)

lemma read_settled_getItem_calls:
  "getItem_calls (fst (ThemeProvider_read_settled JSON_parse f w)) = getItem_calls w"
  by (simp add: read_settled_world split: option.splits sum.splits)

lemma read_settled_setItem_calls:
  "setItem_calls (fst (ThemeProvider_read_settled JSON_parse f w)) = setItem_calls w"
  by (simp add: read_settled_world split: option.splits sum.splits)

section \<open>Sequences of calls and runs\<close>

lemma toggle_calls_append:
  "toggle_calls (cs @ ds) w = toggle_calls ds (toggle_calls cs w)"
  by (induction cs arbitrary: w) auto

lemma toggle_calls_log:
  "setItem_calls (toggle_calls cs w) =
     setItem_calls w @ map (\<lambda>(c, f). (''darkMode'', JSON_stringify (\<not> truthy c))) cs"
  by (induction cs arbitrary: w) (auto simp: toggle_setItem_calls)

text \<open>
  Calls in succession are neither merged nor queued: each appends its own write to the
  log and sets the flag to the negation of the flag its closure captured, and a write
  that is carried out replaces the stored text.
\<close>

lemma toggle_calls_effect:
  "setItem_calls (toggle_calls cs w) =
     setItem_calls w @ map (\<lambda>(c, f). (''darkMode'', JSON_stringify (\<not> truthy c))) cs
   \<and> length (setItem_calls (toggle_calls cs w)) = length (setItem_calls w) + length cs
   \<and> isDarkMode_state (toggle_calls (cs @ [(c, f)]) w) = JBool (\<not> truthy c)
   \<and> storage (toggle_calls (cs @ [(c, None)]) w) ''darkMode'' =
       Some (JSON_stringify (\<not> truthy c))"
  by (simp add: toggle_calls_log toggle_calls_append toggle_state toggle_storage_written)

lemma completed_toggles_flag_and_text:
  "isDarkMode_state w = JBool b \<Longrightarrow>
     isDarkMode_state (completed_toggles n w) = JBool (b \<noteq> odd n)
     \<and> storage (completed_toggles n w) ''darkMode'' =
         (if n = 0 then storage w ''darkMode'' else Some (JSON_stringify (b \<noteq> odd n)))"
proof (induction n arbitrary: w b)
  case 0
  then show ?case by simp
next
  case (Suc n)
  let ?w' = "fst (toggleDarkMode (ThemeProvider w) None w)"
  have flag: "isDarkMode_state ?w' = JBool (\<not> b)"
    using Suc.prems by (simp add: context_toggleDarkMode toggle_state)
  have stored: "storage ?w' ''darkMode'' = Some (JSON_stringify (\<not> b))"
    using Suc.prems by (simp add: context_toggleDarkMode toggle_storage_written)
  from Suc.IH [OF flag] stored show ?case
    by (cases "n = 0") auto
qed

text \<open>
  When every call is made through the render that follows the call before it, the
  restarted provider follows the parity of the calls: on a fresh install, with the
  first provider's read settling (carried out or failed) after the first \<open>m\<close> of
  \<open>m + k\<close> completed calls, and the read of the restarted provider carried out.
\<close>

lemma round_trip_through_following_renders:
  assumes "JSON_parse ''true'' = Inr (JBool True)"
    and "JSON_parse ''false'' = Inr (JBool False)"
    and "st ''darkMode'' = None"
  shows "isDarkMode (ThemeProvider (ThemeProvider_restarted JSON_parse
           (completed_toggles k
              (fst (ThemeProvider_read_settled JSON_parse f
                 (completed_toggles m (ThemeProvider_mounted st))))))) =
         JBool (odd (m + k))"
proof -
  let ?a = "completed_toggles m (ThemeProvider_mounted st)"
  let ?b = "fst (ThemeProvider_read_settled JSON_parse f ?a)"
  let ?c = "completed_toggles k ?b"
  have parse: "JSON_parse (JSON_stringify x) = Inr (JBool x)" for x
    using assms(1,2) by (simp add: JSON_stringify_def)
  have nonempty: "JSON_stringify x \<noteq> []" for x
    by (simp add: JSON_stringify_def)
  from completed_toggles_flag_and_text [OF mounted_state [of st], of m]
  have flag_a: "isDarkMode_state ?a = JBool (odd m)"
    and stored_a: "storage ?a ''darkMode'' =
      (if m = 0 then None else Some (JSON_stringify (odd m)))"
    using assms(3) by (simp_all add: mounted_storage)
  have flag_b: "isDarkMode_state ?b = JBool (odd m)"
    using flag_a stored_a parse nonempty
    by (simp add: read_settled_state mounted_state split: option.splits)
  have stored_b: "storage ?b ''darkMode'' =
      (if m = 0 then None else Some (JSON_stringify (odd m)))"
    using stored_a by (simp add: read_settled_storage)
  from completed_toggles_flag_and_text [OF flag_b, of k] stored_b
  have stored_c: "storage ?c ''darkMode'' =
      (if m + k = 0 then None else Some (JSON_stringify (odd (m + k))))"
    by (cases "k = 0") auto
  have "isDarkMode_state (ThemeProvider_restarted JSON_parse ?c) = JBool (odd (m + k))"
  proof (cases "m + k = 0")
    case True
    with stored_c show ?thesis
      by (simp add: ThemeProvider_restarted_def read_settled_state mounted_state mounted_storage)
  next
    case False
    with stored_c parse [of "odd (m + k)"] nonempty [of "odd (m + k)"] show ?thesis
      by (simp add: ThemeProvider_restarted_def read_settled_state mounted_state mounted_storage)
  qed
  then show ?thesis
    by (simp add: ThemeProvider_def Let_def)
qed

lemma step_getItem_calls:
  "getItem_calls (step JSON_parse ev w) = getItem_calls w"
  by (cases ev) (simp_all add: toggle_getItem_calls read_settled_getItem_calls)

lemma step_setItem_calls:
  "setItem_calls (step JSON_parse ev w) =
     setItem_calls w @
     (case ev of
        Toggle c f \<Rightarrow> [(''darkMode'', JSON_stringify (\<not> truthy c))]
      | ReadSettles f \<Rightarrow> [])"
  by (cases ev) (simp_all add: toggle_setItem_calls read_settled_setItem_calls)

lemma step_storage:
  "storage (step JSON_parse ev w) ''darkMode'' = storage w ''darkMode''
   \<or> storage (step JSON_parse ev w) ''darkMode'' = Some ''true''
   \<or> storage (step JSON_parse ev w) ''darkMode'' = Some ''false''"
proof (cases ev)
  case (Toggle c f)
  then show ?thesis
    by (cases f) (simp_all add: toggle_storage_written toggle_storage_failed JSON_stringify_def)
next
  case (ReadSettles f)
  then show ?thesis by (simp add: read_settled_storage)
qed

lemma step_other_keys:
  "k \<noteq> ''darkMode'' \<Longrightarrow> storage (step JSON_parse ev w) k = storage w k"
proof (cases ev)
  case (Toggle c f)
  assume "k \<noteq> ''darkMode''"
  with Toggle show ?thesis
    by (cases f) (simp_all add: toggle_storage_written toggle_storage_failed)
next
  case (ReadSettles f)
  then show ?thesis by (simp add: read_settled_storage)
qed

lemma run_getItem_calls:
  "getItem_calls (run JSON_parse evs w) = getItem_calls w"
  by (induction evs arbitrary: w) (simp_all add: step_getItem_calls)

lemma run_setItem_calls:
  "setItem_calls (run JSON_parse evs w) =
     setItem_calls w @
     concat (map (\<lambda>ev. case ev of
                         Toggle c f \<Rightarrow> [(''darkMode'', JSON_stringify (\<not> truthy c))]
                       | ReadSettles f \<Rightarrow> []) evs)"
  by (induction evs arbitrary: w) (simp_all add: step_setItem_calls)

lemma written_texts_boolean:
  "list_all (\<lambda>(k, v). k = ''darkMode'' \<and> (v = ''true'' \<or> v = ''false''))
     (concat (map (\<lambda>ev. case ev of
                         Toggle c f \<Rightarrow> [(''darkMode'', JSON_stringify (\<not> truthy c))]
                       | ReadSettles f \<Rightarrow> []) evs))"
  by (induction evs) (simp_all add: JSON_stringify_def split: event.splits)

lemma run_storage:
  "storage (run JSON_parse evs w) ''darkMode'' = storage w ''darkMode''
   \<or> storage (run JSON_parse evs w) ''darkMode'' = Some ''true''
   \<or> storage (run JSON_parse evs w) ''darkMode'' = Some ''false''"
proof (induction evs arbitrary: w)
  case Nil
  then show ?case by simp
next
  case (Cons ev evs)
  from Cons.IH [of "step JSON_parse ev w"] step_storage [of JSON_parse ev w]
  show ?case by auto
qed

lemma run_other_keys:
  "k \<noteq> ''darkMode'' \<Longrightarrow> storage (run JSON_parse evs w) k = storage w k"
  by (induction evs arbitrary: w) (simp_all add: step_other_keys)

section \<open>The two scheme constants against the interface\<close>

lemma lightColors_keys: "object_keys lightColors = interface_keys ColorScheme_interface"
  by (simp add: lightColors_def ColorScheme_interface_def)

lemma darkColors_keys: "object_keys darkColors = interface_keys ColorScheme_interface"
  by (simp add: darkColors_def ColorScheme_interface_def)

lemma lightColors_populated: "has_fields ColorScheme_interface lightColors"
  by (simp add: lightColors_def ColorScheme_interface_def)

lemma darkColors_populated: "has_fields ColorScheme_interface darkColors"
  by (simp add: darkColors_def ColorScheme_interface_def)

lemma interface_keys_distinct: "distinct (interface_keys ColorScheme_interface)"
  by (simp add: ColorScheme_interface_def)

section \<open>The published scheme\<close>

text \<open>
  C1. The published colors are a function of the flag alone: with the flag true they are
  the dark scheme, with the flag false the light scheme, and in every state (whatever the
  state cell holds) they are one of these two constants.
\<close>

theorem colors_pure_function_of_flag:
  "colors (ThemeProvider (w\<lparr>isDarkMode_state := JBool True\<rparr>)) = darkColors
   \<and> colors (ThemeProvider (w\<lparr>isDarkMode_state := JBool False\<rparr>)) = lightColors
   \<and> colors (ThemeProvider w) = (if truthy (isDarkMode_state w) then darkColors else lightColors)
   \<and> (colors (ThemeProvider w) = darkColors \<or> colors (ThemeProvider w) = lightColors)
   \<and> isDarkMode (ThemeProvider w) = isDarkMode_state w"
  by (simp add: ThemeProvider_def Let_def)

section \<open>The accessor\<close>

text \<open>
  C2. Outside a provider \<open>useTheme\<close> returns no context: it raises, as its direct result
  and not through a promise, an \<open>Error\<close> whose message names \<open>ThemeProvider\<close>. Under a
  provider it returns what that provider's render published, in every state.
\<close>

theorem useTheme_fails_fast_outside_provider:
  "useTheme None = Inl (Error ''useTheme must be used within a ThemeProvider'')
   \<and> (\<exists>before after. useTheme None = Inl (Error (before @ ''ThemeProvider'' @ after)))
   \<and> useTheme (Some w) = Inr (ThemeProvider w)"
proof -
  have "useTheme None =
        Inl (Error (''useTheme must be used within a '' @ ''ThemeProvider'' @ []))"
    by (simp add: useTheme_def useContext_def)
  then have "\<exists>before after. useTheme None = Inl (Error (before @ ''ThemeProvider'' @ after))"
    by blast
  then show ?thesis
    by (simp add: useTheme_def useContext_def)
qed

section \<open>A fresh provider\<close>

text \<open>
  C3. A newly constructed provider, over any stored texts (none included) and before its
  read has settled, has the flag false and publishes the light scheme.
\<close>

theorem fresh_provider_is_light:
  "isDarkMode (ThemeProvider (ThemeProvider_initial st)) = JBool False
   \<and> colors (ThemeProvider (ThemeProvider_initial st)) = lightColors
   \<and> isDarkMode (ThemeProvider (ThemeProvider_initial Map.empty)) = JBool False
   \<and> colors (ThemeProvider (ThemeProvider_initial Map.empty)) = lightColors"
  by (simp add: ThemeProvider_def ThemeProvider_initial_def Let_def)

section \<open>Toggling\<close>

text \<open>
  C4. From either flag value, two calls of \<open>toggleDarkMode\<close>, the second made through
  the render that follows the first, bring the flag back to where it started, whether or
  not the writes succeed.
\<close>

theorem toggle_twice_restores_flag:
  "(let w0 = w\<lparr>isDarkMode_state := JBool b\<rparr>;
        w1 = fst (toggleDarkMode (ThemeProvider w0) f1 w0);
        w2 = fst (toggleDarkMode (ThemeProvider w1) f2 w1)
    in isDarkMode_state w1 = JBool (\<not> b)
       \<and> isDarkMode_state w2 = JBool b
       \<and> isDarkMode (ThemeProvider w2) = isDarkMode (ThemeProvider w0))"
  by (simp add: Let_def context_toggleDarkMode toggle_state ThemeProvider_def)

text \<open>
  C7. When the write of a call fails, the flag the call has set stands, the stored text
  and the read log are untouched and exactly one write was attempted; the provider does
  not catch the failure, so the promise that the call returns rejects with it.
\<close>

theorem failed_persist_keeps_flag_and_rejects:
  "isDarkMode_state (fst (ThemeProvider_toggleDarkMode c (Some e) w)) = JBool (\<not> truthy c)
   \<and> storage (fst (ThemeProvider_toggleDarkMode c (Some e) w)) = storage w
   \<and> setItem_calls (fst (ThemeProvider_toggleDarkMode c (Some e) w)) =
       setItem_calls w @ [(''darkMode'', JSON_stringify (\<not> truthy c))]
   \<and> getItem_calls (fst (ThemeProvider_toggleDarkMode c (Some e) w)) = getItem_calls w
   \<and> snd (ThemeProvider_toggleDarkMode c (Some e) w) = Rejected e
   \<and> isDarkMode_state (fst (toggleDarkMode (ThemeProvider w) (Some e) w)) =
       JBool (\<not> truthy (isDarkMode_state w))
   \<and> snd (toggleDarkMode (ThemeProvider w) (Some e) w) = Rejected e"
  by (simp add: context_toggleDarkMode toggle_state toggle_storage_failed
      toggle_setItem_calls toggle_getItem_calls toggle_promise)

text \<open>
  Against C7 as first stated, the failure does reach the caller: on a fresh provider a
  call whose write is rejected returns a promise that rejects with the storage error.
\<close>

theorem failed_persist_reaches_caller:
  "snd (toggleDarkMode (ThemeProvider (ThemeProvider_initial Map.empty))
          (Some (StorageError ''write failed'')) (ThemeProvider_initial Map.empty))
     = Rejected (StorageError ''write failed'')
   \<and> snd (toggleDarkMode (ThemeProvider (ThemeProvider_initial Map.empty))
          (Some (StorageError ''write failed'')) (ThemeProvider_initial Map.empty))
     \<noteq> Fulfilled ()"
  by (simp add: context_toggleDarkMode toggle_promise)

text \<open>
  C10. Each call is to negate the flag current at the time of the call and to issue its
  own write. Two calls made through one render each issue a write, but the second does
  not negate the current flag: after the first call the flag is true, and the second,
  whose closure still holds the false of its render, sets it to true again and writes
  \<open>true\<close> again.
\<close>

theorem second_call_through_same_render_does_not_negate:
  "(let w0 = ThemeProvider_initial Map.empty;
        context = ThemeProvider w0;
        w1 = fst (toggleDarkMode context None w0);
        w2 = fst (toggleDarkMode context None w1)
    in isDarkMode_state w1 = JBool True
       \<and> isDarkMode_state w2 = JBool True
       \<and> isDarkMode_state w2 \<noteq> JBool (\<not> truthy (isDarkMode_state w1))
       \<and> setItem_calls w2 = [(''darkMode'', ''true''), (''darkMode'', ''true'')]
       \<and> storage w2 ''darkMode'' = Some ''true'')"
  by (simp add: Let_def context_toggleDarkMode toggle_state toggle_setItem_calls
      toggle_storage_written ThemeProvider_initial_def JSON_stringify_def)

section \<open>Persistence\<close>

text \<open>
  C6. Provided \<open>JSON.parse\<close> reads a serialized boolean back, a provider that finds one
  stored adopts it as the flag and changes nothing else; with nothing stored the flag
  stays false and nothing is rejected. With the read failing the flag stays false and
  consumers go on receiving the light context, but the failure is not caught: the chain
  of the mount effect rejects with it, unhandled.
\<close>

theorem init_adopts_stored_boolean_and_leaves_failure_unhandled:
  assumes "JSON_parse (JSON_stringify b) = Inr (JBool b)"
  shows "ThemeProvider_read_settled JSON_parse None
           (ThemeProvider_mounted (st(''darkMode'' \<mapsto> JSON_stringify b))) =
         ((ThemeProvider_mounted (st(''darkMode'' \<mapsto> JSON_stringify b)))
            \<lparr>isDarkMode_state := JBool b\<rparr>, None)
   \<and> ThemeProvider_read_settled JSON_parse None (ThemeProvider_mounted (st(''darkMode'' := None))) =
         (ThemeProvider_mounted (st(''darkMode'' := None)), None)
   \<and> ThemeProvider_read_settled JSON_parse (Some e) (ThemeProvider_mounted st) =
         (ThemeProvider_mounted st, Some e)
   \<and> isDarkMode_state (ThemeProvider_mounted st) = JBool False
   \<and> useTheme (Some (fst (ThemeProvider_read_settled JSON_parse (Some e)
                              (ThemeProvider_mounted st)))) =
       Inr \<lparr>isDarkMode = JBool False,
            toggleDarkMode = ThemeProvider_toggleDarkMode (JBool False),
            colors = lightColors\<rparr>"
proof -
  have nonempty: "JSON_stringify b \<noteq> []"
    by (simp add: JSON_stringify_def)
  have present: "ThemeProvider_read_settled JSON_parse None
           (ThemeProvider_mounted (st(''darkMode'' \<mapsto> JSON_stringify b))) =
         ((ThemeProvider_mounted (st(''darkMode'' \<mapsto> JSON_stringify b)))
            \<lparr>isDarkMode_state := JBool b\<rparr>, None)"
    using assms nonempty
    by (simp add: prod_eq_iff read_settled_world read_settled_unhandled mounted_storage)
  have absent: "ThemeProvider_read_settled JSON_parse None
           (ThemeProvider_mounted (st(''darkMode'' := None))) =
         (ThemeProvider_mounted (st(''darkMode'' := None)), None)"
    by (simp add: prod_eq_iff read_settled_world read_settled_unhandled mounted_storage)
  have failed: "ThemeProvider_read_settled JSON_parse (Some e) (ThemeProvider_mounted st) =
         (ThemeProvider_mounted st, Some e)"
    by (simp add: prod_eq_iff read_settled_world read_settled_unhandled)
  have light: "useTheme (Some (ThemeProvider_mounted st)) =
       Inr \<lparr>isDarkMode = JBool False,
            toggleDarkMode = ThemeProvider_toggleDarkMode (JBool False),
            colors = lightColors\<rparr>"
    by (simp add: useTheme_def useContext_def ThemeProvider_def Let_def mounted_state)
  show ?thesis
    using present absent failed light by (simp add: mounted_state)
qed

theorem init_adopts_stored_boolean_and_leaves_failure_unhandled_witness:
  "JSON_parse_literals (JSON_stringify True) = Inr (JBool True)
   \<and> isDarkMode_state (fst (ThemeProvider_read_settled JSON_parse_literals None
        (ThemeProvider_mounted (Map.empty(''darkMode'' \<mapsto> JSON_stringify True))))) = JBool True
   \<and> ThemeProvider_read_settled JSON_parse_literals (Some (StorageError ''read failed''))
        (ThemeProvider_mounted Map.empty) =
      (ThemeProvider_mounted Map.empty, Some (StorageError ''read failed''))"
  using init_adopts_stored_boolean_and_leaves_failure_unhandled
    [where JSON_parse = JSON_parse_literals and b = True and st = Map.empty
       and e = "StorageError ''read failed''"]
  by (simp add: JSON_parse_literals_def JSON_stringify_def)

text \<open>
  Against C6 as first stated, an error is surfaced when the read fails: on a fresh
  install the settled read leaves the storage error as an unhandled rejection.
\<close>

theorem failed_read_is_left_unhandled:
  "snd (ThemeProvider_read_settled JSON_parse_literals (Some (StorageError ''read failed''))
          (ThemeProvider_mounted Map.empty)) = Some (StorageError ''read failed'')
   \<and> snd (ThemeProvider_read_settled JSON_parse_literals (Some (StorageError ''read failed''))
          (ThemeProvider_mounted Map.empty)) \<noteq> None"
  by (simp add: read_settled_unhandled)

text \<open>
  C5. After an even number of completed calls a restarted provider is to come up light.
  On a fresh install, two completed calls made through the same render both write
  \<open>true\<close>, and the provider constructed anew over the same storage comes up dark.
\<close>

theorem two_calls_through_one_render_restart_dark:
  "(let w0 = fst (ThemeProvider_read_settled JSON_parse_literals None
                    (ThemeProvider_mounted Map.empty));
        context = ThemeProvider w0;
        w1 = fst (toggleDarkMode context None w0);
        w2 = fst (toggleDarkMode context None w1)
    in snd (toggleDarkMode context None w0) = Fulfilled ()
       \<and> snd (toggleDarkMode context None w1) = Fulfilled ()
       \<and> setItem_calls w2 = [(''darkMode'', ''true''), (''darkMode'', ''true'')]
       \<and> storage w2 ''darkMode'' = Some ''true''
       \<and> isDarkMode (ThemeProvider (ThemeProvider_restarted JSON_parse_literals w2)) = JBool True
       \<and> isDarkMode (ThemeProvider (ThemeProvider_restarted JSON_parse_literals w2))
           \<noteq> JBool (odd (2 :: nat)))"
proof -
  let ?w0 = "fst (ThemeProvider_read_settled JSON_parse_literals None
                    (ThemeProvider_mounted Map.empty))"
  let ?w1 = "fst (toggleDarkMode (ThemeProvider ?w0) None ?w0)"
  let ?w2 = "fst (toggleDarkMode (ThemeProvider ?w0) None ?w1)"
  have flag0: "isDarkMode_state ?w0 = JBool False"
    by (simp add: read_settled_state mounted_state mounted_storage)
  have calls0: "setItem_calls ?w0 = []"
    by (simp add: read_settled_setItem_calls mounted_setItem_calls)
  have calls2: "setItem_calls ?w2 = [(''darkMode'', ''true''), (''darkMode'', ''true'')]"
    using flag0 calls0 by (simp add: context_toggleDarkMode toggle_setItem_calls JSON_stringify_def)
  have stored2: "storage ?w2 ''darkMode'' = Some ''true''"
    using flag0 by (simp add: context_toggleDarkMode toggle_storage_written JSON_stringify_def)
  have "isDarkMode_state (ThemeProvider_restarted JSON_parse_literals ?w2) = JBool True"
    using stored2
    by (simp add: ThemeProvider_restarted_def read_settled_state mounted_state mounted_storage
        JSON_parse_literals_def)
  then have dark: "isDarkMode (ThemeProvider (ThemeProvider_restarted JSON_parse_literals ?w2)) =
      JBool True"
    by (simp add: ThemeProvider_def Let_def)
  show ?thesis
    using calls2 stored2 dark by (simp add: Let_def context_toggleDarkMode toggle_promise)
qed

text \<open>
  C8. The provider issues one read, at mount, under the key \<open>darkMode\<close>, and no other
  read in any run. Every call of \<open>toggleDarkMode\<close> issues exactly one write, under the
  same key, of the text \<open>true\<close> or \<open>false\<close> that serializes the flag it sets, and a
  write carried out stores that text; nothing else is written. No other key of the
  storage changes, and the text under \<open>darkMode\<close> is the one found at construction
  until a write replaces it by \<open>true\<close> or \<open>false\<close>.
\<close>

theorem single_key_and_boolean_texts:
  "getItem_calls (ThemeProvider_mounted st) = [''darkMode'']
   \<and> getItem_calls (run JSON_parse evs (ThemeProvider_mounted st)) = [''darkMode'']
   \<and> setItem_calls (run JSON_parse evs (ThemeProvider_mounted st)) =
       concat (map (\<lambda>ev. case ev of
                           Toggle c f \<Rightarrow> [(''darkMode'', JSON_stringify (\<not> truthy c))]
                         | ReadSettles f \<Rightarrow> []) evs)
   \<and> list_all (\<lambda>(k, v). k = ''darkMode'' \<and> (v = ''true'' \<or> v = ''false''))
       (setItem_calls (run JSON_parse evs (ThemeProvider_mounted st)))
   \<and> setItem_calls (fst (toggleDarkMode (ThemeProvider w) f w)) =
       setItem_calls w @ [(''darkMode'', JSON_stringify (\<not> truthy (isDarkMode_state w)))]
   \<and> getItem_calls (fst (toggleDarkMode (ThemeProvider w) f w)) = getItem_calls w
   \<and> isDarkMode_state (fst (toggleDarkMode (ThemeProvider w) f w)) =
       JBool (\<not> truthy (isDarkMode_state w))
   \<and> storage (fst (toggleDarkMode (ThemeProvider w) None w)) =
       (storage w)(''darkMode'' \<mapsto> JSON_stringify (\<not> truthy (isDarkMode_state w)))
   \<and> JSON_stringify True = ''true''
   \<and> JSON_stringify False = ''false''
   \<and> (storage (run JSON_parse evs (ThemeProvider_mounted st)) ''darkMode'' = st ''darkMode''
      \<or> storage (run JSON_parse evs (ThemeProvider_mounted st)) ''darkMode'' = Some ''true''
      \<or> storage (run JSON_parse evs (ThemeProvider_mounted st)) ''darkMode'' = Some ''false'')
   \<and> storage (run JSON_parse evs (ThemeProvider_mounted st)) =
       st(''darkMode'' := storage (run JSON_parse evs (ThemeProvider_mounted st)) ''darkMode'')"
proof -
  let ?w = "ThemeProvider_mounted st"
  let ?r = "run JSON_parse evs ?w"
  have reads: "getItem_calls ?r = [''darkMode'']"
    by (simp add: run_getItem_calls mounted_getItem_calls)
  have writes: "setItem_calls ?r =
       concat (map (\<lambda>ev. case ev of
                           Toggle c f \<Rightarrow> [(''darkMode'', JSON_stringify (\<not> truthy c))]
                         | ReadSettles f \<Rightarrow> []) evs)"
    by (simp add: run_setItem_calls mounted_setItem_calls)
  have texts: "list_all (\<lambda>(k, v). k = ''darkMode'' \<and> (v = ''true'' \<or> v = ''false''))
       (setItem_calls ?r)"
    unfolding writes by (rule written_texts_boolean)
  have stored: "storage ?r ''darkMode'' = st ''darkMode''
      \<or> storage ?r ''darkMode'' = Some ''true''
      \<or> storage ?r ''darkMode'' = Some ''false''"
    using run_storage [of JSON_parse evs ?w] by (simp add: mounted_storage)
  have others: "storage ?r = st(''darkMode'' := storage ?r ''darkMode'')"
  proof (rule ext)
    fix k
    show "storage ?r k = (st(''darkMode'' := storage ?r ''darkMode'')) k"
      by (cases "k = ''darkMode''") (simp_all add: run_other_keys mounted_storage)
  qed
  have one_call: "setItem_calls (fst (toggleDarkMode (ThemeProvider w) f w)) =
       setItem_calls w @ [(''darkMode'', JSON_stringify (\<not> truthy (isDarkMode_state w)))]"
    "getItem_calls (fst (toggleDarkMode (ThemeProvider w) f w)) = getItem_calls w"
    "isDarkMode_state (fst (toggleDarkMode (ThemeProvider w) f w)) =
       JBool (\<not> truthy (isDarkMode_state w))"
    "storage (fst (toggleDarkMode (ThemeProvider w) None w)) =
       (storage w)(''darkMode'' \<mapsto> JSON_stringify (\<not> truthy (isDarkMode_state w)))"
    by (simp_all add: context_toggleDarkMode toggle_setItem_calls toggle_getItem_calls
        toggle_state toggle_storage_written)
  have literals: "JSON_stringify True = ''true''" "JSON_stringify False = ''false''"
    by (simp_all add: JSON_stringify_def)
  from mounted_getItem_calls [of st] reads writes texts one_call literals stored others
  show ?thesis by blast
qed

section \<open>Scheme completeness\<close>

text \<open>
  C9. The light and the dark scheme have the same keys, nested ones included, which are
  the keys the \<open>ColorScheme\<close> interface declares; each field holds a value of its
  declared shape in both; and \<open>statusBarStyle\<close> is \<open>dark-content\<close> in the light scheme
  and \<open>light-content\<close> in the dark one.
\<close>

theorem schemes_complete:
  "object_keys lightColors = object_keys darkColors
   \<and> set (object_keys lightColors) = set (object_keys darkColors)
   \<and> map fst lightColors = map fst darkColors
   \<and> object_keys lightColors = interface_keys ColorScheme_interface
   \<and> distinct (object_keys lightColors)
   \<and> has_fields ColorScheme_interface lightColors
   \<and> has_fields ColorScheme_interface darkColors
   \<and> map_of lightColors ''statusBarStyle'' = Some (Str ''dark-content'')
   \<and> map_of darkColors ''statusBarStyle'' = Some (Str ''light-content'')"
proof -
  have top: "map fst lightColors = map fst darkColors"
    by (simp add: lightColors_def darkColors_def)
  have light: "map_of lightColors ''statusBarStyle'' = Some (Str ''dark-content'')"
    by (simp add: lightColors_def)
  have dark: "map_of darkColors ''statusBarStyle'' = Some (Str ''light-content'')"
    by (simp add: darkColors_def)
  show ?thesis
    using top light dark
    by (simp add: lightColors_keys darkColors_keys lightColors_populated
        darkColors_populated interface_keys_distinct)
qed

end
